theory Spec2Isabelle
  imports Complex_Main "HOL-Library.Sublist" "HOL-Library.Word"
begin

section \<open>The automation engine of components/AutomationPage.tsx\<close>

text \<open>
  The engine is TypeScript: \<^verbatim>\<open>processAutomations\<close> selects the rules of an event and
  dispatches each one, \<^verbatim>\<open>executeAction\<close> runs one rule's action inside a
  \<^verbatim>\<open>try/catch\<close>, and \<^verbatim>\<open>replacePlaceholders\<close> fills the bracketed tokens of a
  template. The embedding keeps the source's names. What JavaScript leaves implicit is
  written out:
  \<^item> an optional field (\<^verbatim>\<open>f?: T\<close>) is a \<open>T option\<close>, \<open>None\<close> standing for
    \<^verbatim>\<open>undefined\<close>;
  \<^item> a \<^verbatim>\<open>number\<close> is the rational number it denotes (\<^verbatim>\<open>NaN\<close> and the infinities are
    not values of the model);
  \<^item> truthiness (\<^verbatim>\<open>if (x)\<close>, \<^verbatim>\<open>x || y\<close>, \<^verbatim>\<open>x && y\<close>) is a function per type;
  \<^item> reading a property of \<^verbatim>\<open>undefined\<close> raises a \<^verbatim>\<open>TypeError\<close>, which is a value of
    the result;
  \<^item> what a call does to the outside (console, handlers, network, timers) is a list of
    effects in the order the call performs them.
\<close>

subsection \<open>Data model (components/types.ts)\<close>

datatype TriggerType =
    new_customer
  | job_status_updated
  | job_created
  | task_completed
  | invoice_overdue
  | scheduled_time
  | inventory_low

datatype ActionType =
    webhook
  | create_task
  | add_to_schedule
  | send_email
  | update_inventory
  | send_sms
  | update_job_status
  | assign_team
  | create_invoice

datatype Priority = low | medium | high

text \<open>The recipient selector \<^verbatim>\<open>'customer' | 'team' | 'custom'\<close>.\<close>

datatype Recipient = to_customer | to_team | to_custom

datatype Operator = equals | greater_than | less_than | contains

record TriggerConfig =
  to_status :: "string option"
  from_status :: "string option"
  job_value_min :: "rat option"
  job_value_max :: "rat option"
  time :: "string option"
  days_overdue :: "rat option"
  stock_threshold :: "rat option"
  item_name :: "string option"

record ActionConfig =
  url :: "string option"
  task_title :: "string option"
  task_description :: "string option"
  task_priority :: "Priority option"
  email_subject :: "string option"
  email_body :: "string option"
  email_recipient :: "Recipient option"
  custom_email :: "string option"
  sms_message :: "string option"
  sms_recipient :: "Recipient option"
  custom_phone :: "string option"
  new_status :: "string option"
  team_ids :: "int list option"
  delay_minutes :: "rat option"

text \<open>
  One entry of \<^verbatim>\<open>conditions\<close>. Its \<^verbatim>\<open>value\<close> has type \<^verbatim>\<open>any\<close>; the engine never
  reads the list, so the value is kept as text.
\<close>

record Condition =
  field_c :: "string option"
  operator_c :: "Operator option"
  value_c :: "string option"

text \<open>
  The interface \<^verbatim>\<open>Automation\<close>. The fields \<^verbatim>\<open>id\<close> and \<^verbatim>\<open>name\<close> carry a suffix:
  \<open>id\<close> is the identity function of HOL, and \<open>name\<close> is a field of the payload
  below.
\<close>

record Automation =
  id_a :: "int option"
  name_a :: string
  description :: "string option"
  trigger_type :: TriggerType
  trigger_config :: TriggerConfig
  action_type :: ActionType
  action_config :: ActionConfig
  conditions :: "Condition list option"
  is_enabled :: bool

subsection \<open>Event payloads\<close>

text \<open>
  Modelled from the spec: the declarations of \<^verbatim>\<open>CustomerInfo\<close> (components/PDF.tsx) and
  \<^verbatim>\<open>EstimateRecord\<close> (lib/db.ts) are missing from the sources. The spec describes the
  payload as a bare customer record or a job/estimate record with nested customer and cost
  fields. The records below hold the fields the engine reads, with the types its reads imply:
  \<^verbatim>\<open>name\<close>, \<^verbatim>\<open>address\<close>, \<^verbatim>\<open>email\<close> at the top level and in
  \<^verbatim>\<open>calcData.customer\<close>, \<^verbatim>\<open>estimateNumber\<close>, \<^verbatim>\<open>status\<close> and
  \<^verbatim>\<open>costsData.finalQuote\<close>. A job record extends a customer record, so one type covers
  \<^verbatim>\<open>CustomerInfo | EstimateRecord\<close>; the engine's parameter \<^verbatim>\<open>data\<close> is an
  \<open>EstimateRecord option\<close>, \<open>None\<close> being \<^verbatim>\<open>undefined\<close> (an event with no payload).
\<close>

record CustomerInfo =
  name :: "string option"
  address :: "string option"
  email :: "string option"

record CalcData =
  customer :: "CustomerInfo option"

record CostsData =
  finalQuote :: "rat option"

record EstimateRecord = CustomerInfo +
  estimateNumber :: "string option"
  status :: "string option"
  calcData :: "CalcData option"
  costsData :: "CostsData option"

subsection \<open>JavaScript truthiness and defaults\<close>

text \<open>A string is truthy when it is present and not empty; a number when it is not zero.\<close>

fun truthy_str :: "string option \<Rightarrow> bool" where
  "truthy_str None = False"
| "truthy_str (Some s) = (s \<noteq> [])"

fun truthy_num :: "rat option \<Rightarrow> bool" where
  "truthy_num None = False"
| "truthy_num (Some x) = (x \<noteq> 0)"

text \<open>\<^verbatim>\<open>a || b\<close> on optional strings, and \<^verbatim>\<open>a || ''\<close>.\<close>

fun or_str :: "string option \<Rightarrow> string option \<Rightarrow> string option" where
  "or_str a b = (if truthy_str a then a else b)"

fun or_empty :: "string option \<Rightarrow> string" where
  "or_empty None = []"
| "or_empty (Some s) = s"

text \<open>\<^verbatim>\<open>x || 0\<close> on an optional number.\<close>

fun or_zero :: "rat option \<Rightarrow> rat" where
  "or_zero None = 0"
| "or_zero (Some x) = (if x \<noteq> 0 then x else 0)"

text \<open>The optional chains \<^verbatim>\<open>data.calcData?.customer\<close> and \<^verbatim>\<open>data.costsData?.finalQuote\<close>.\<close>

fun nested_customer :: "EstimateRecord \<Rightarrow> CustomerInfo option" where
  "nested_customer d = (case calcData d of None \<Rightarrow> None | Some c \<Rightarrow> customer c)"

fun nested_quote :: "EstimateRecord \<Rightarrow> rat option" where
  "nested_quote d = (case costsData d of None \<Rightarrow> None | Some c \<Rightarrow> finalQuote c)"

subsection \<open>Number.prototype.toFixed(2)\<close>

text \<open>
  \<^verbatim>\<open>x.toFixed(2)\<close> prints the sign of a negative \<open>x\<close>, then the integer \<open>n\<close> nearest to
  \<open>100 * |x|\<close> (the larger one on a tie) with a point before its last two digits. This is
  the fixed notation JavaScript uses below \<open>10^21\<close>.
\<close>

fun digit_char :: "nat \<Rightarrow> char" where
  "digit_char n = ''0123456789'' ! (n mod 10)"

fun digits :: "nat \<Rightarrow> string" where
  "digits n = (if n < 10 then [digit_char n] else digits (n div 10) @ [digit_char n])"

declare digits.simps [simp del]

definition toFixed2 :: "rat \<Rightarrow> string" where
  "toFixed2 x =
     (let n = nat \<lfloor>\<bar>x\<bar> * 100 + 1 / 2\<rfloor>
      in (if x < 0 then ''-'' else '''') @ digits (n div 100) @ ''.'' @
         [digit_char (n div 10), digit_char n])"

subsection \<open>String.prototype.replace with a global pattern\<close>

text \<open>
  \<^verbatim>\<open>text.replace(/\[token\]/g, repl)\<close> scans the text from the left for the literal token.
  The replacement is a string, not a function, so JavaScript expands it for every match
  (ECMAScript, GetSubstitution): \<^verbatim>\<open>$$\<close> is a dollar sign, \<^verbatim>\<open>$&\<close> the matched text,
  \<^verbatim>\<open>$`\<close> the text before the match and \<^verbatim>\<open>$'\<close> the text after it. The patterns have no
  capture groups, so every other \<^verbatim>\<open>$\<close> stands for itself.
\<close>

fun getSubstitution :: "string \<Rightarrow> string \<Rightarrow> string \<Rightarrow> string \<Rightarrow> string" where
  "getSubstitution matched preceding following [] = []"
| "getSubstitution matched preceding following [c] = [c]"
| "getSubstitution matched preceding following (c # d # cs) =
     (if c = CHR ''$'' \<and> d = CHR ''$'' then CHR ''$'' # getSubstitution matched preceding following cs
      else if c = CHR ''$'' \<and> d = CHR ''&'' then matched @ getSubstitution matched preceding following cs
      else if c = CHR ''$'' \<and> d = CHR 0x60 then preceding @ getSubstitution matched preceding following cs
      else if c = CHR ''$'' \<and> d = CHR 0x27 then following @ getSubstitution matched preceding following cs
      else c # getSubstitution matched preceding following (d # cs))"

text \<open>
  \<open>replace_from token repl preceding rest\<close>: \<open>preceding\<close> is the part of the text already
  scanned, \<open>rest\<close> the part still to scan. Matches do not overlap: the scan goes on behind
  a match, and never looks into a replacement.
\<close>

function replace_from :: "string \<Rightarrow> string \<Rightarrow> string \<Rightarrow> string \<Rightarrow> string" where
  "replace_from token repl preceding [] = []"
| "replace_from token repl preceding (c # cs) =
     (if token \<noteq> [] \<and> prefix token (c # cs)
      then getSubstitution token preceding (drop (length token) (c # cs)) repl @
           replace_from token repl (preceding @ token) (drop (length token) (c # cs))
      else c # replace_from token repl (preceding @ [c]) cs)"
  by pat_completeness auto
termination
  by (relation "measure (\<lambda>(token, repl, preceding, rest). length rest)") auto

definition replace_all :: "string \<Rightarrow> string \<Rightarrow> string \<Rightarrow> string" where
  "replace_all token repl text = replace_from token repl [] text"

subsection \<open>replacePlaceholders\<close>

datatype error = TypeError | Thrown string

text \<open>
  \<^verbatim>\<open>
  const replacePlaceholders = (text: string, data: any): string => {
      if (!text) return '';
      let result = text;
      result = result.replace(/\[customer_name\]/g, data.calcData?.customer?.name || data.name || '');
      result = result.replace(/\[customer_address\]/g, data.calcData?.customer?.address || data.address || '');
      result = result.replace(/\[job_number\]/g, data.estimateNumber || '');
      result = result.replace(/\[job_value\]/g, data.costsData?.finalQuote?.toFixed(2) || '');
      return result;
  };
  \<close>
  An empty text returns before \<^verbatim>\<open>data\<close> is read. Otherwise \<^verbatim>\<open>data.calcData\<close> is read
  first, which raises a \<^verbatim>\<open>TypeError\<close> when \<^verbatim>\<open>data\<close> is \<^verbatim>\<open>undefined\<close>. The four
  replacements run one after the other, each on the result of the one before.
\<close>

definition customer_name_of :: "EstimateRecord \<Rightarrow> string" where
  "customer_name_of d =
     or_empty (or_str (case nested_customer d of None \<Rightarrow> None | Some c \<Rightarrow> name c) (name d))"

definition customer_address_of :: "EstimateRecord \<Rightarrow> string" where
  "customer_address_of d =
     or_empty (or_str (case nested_customer d of None \<Rightarrow> None | Some c \<Rightarrow> address c) (address d))"

definition job_number_of :: "EstimateRecord \<Rightarrow> string" where
  "job_number_of d = or_empty (estimateNumber d)"

definition job_value_of :: "EstimateRecord \<Rightarrow> string" where
  "job_value_of d = (case nested_quote d of None \<Rightarrow> [] | Some q \<Rightarrow> toFixed2 q)"

definition replace_tokens :: "string \<Rightarrow> EstimateRecord \<Rightarrow> string" where
  "replace_tokens text d =
     replace_all ''[job_value]'' (job_value_of d)
       (replace_all ''[job_number]'' (job_number_of d)
         (replace_all ''[customer_address]'' (customer_address_of d)
           (replace_all ''[customer_name]'' (customer_name_of d) text)))"

definition replacePlaceholders :: "string \<Rightarrow> EstimateRecord option \<Rightarrow> error + string" where
  "replacePlaceholders text data =
     (if text = [] then Inr []
      else (case data of
              None \<Rightarrow> Inl TypeError
            | Some d \<Rightarrow> Inr (replace_tokens text d)))"

subsection \<open>Effects, handlers and the host\<close>

text \<open>
  The body the webhook posts:
  \<^verbatim>\<open>JSON.stringify({automation: automation.name, trigger: automation.trigger_type, data: data})\<close>.
\<close>

datatype WebhookBody = WebhookBody string TriggerType "EstimateRecord option"

text \<open>
  What a call does to the outside, one constructor per call of the source:
  \<^verbatim>\<open>console.log\<close>, \<^verbatim>\<open>console.warn\<close>, \<^verbatim>\<open>console.error\<close> (with the error it prints),
  \<^verbatim>\<open>fetch(url, {method: 'POST', ..., body})\<close>,
  \<^verbatim>\<open>handlers.createTask({title, description, assignedTo: []})\<close>,
  \<^verbatim>\<open>handlers.addToSchedule({name, start, end, color: '#3498DB', links: []})\<close>,
  \<^verbatim>\<open>handlers.sendEmail(to, subject, body)\<close>, \<^verbatim>\<open>handlers.deductInventoryForJob(job)\<close>
  and \<^verbatim>\<open>setTimeout(callback, ms)\<close>, whose callback is \<^verbatim>\<open>executeAction\<close> of the rule
  being dispatched.
\<close>

datatype effect =
    ConsoleLog string
  | ConsoleWarn string
  | ConsoleError string error
  | Fetch string WebhookBody
  | CreateTask string string
  | AddToSchedule string string string
  | SendEmail string string string
  | DeductInventoryForJob EstimateRecord
  | SetTimeout rat

text \<open>
  A handler is code of the application (\<^verbatim>\<open>ActionHandlers\<close>, passed from App.tsx); the
  engine sees of a call only whether it returns or raises (a synchronous throw and a
  rejected promise both end in the enclosing \<^verbatim>\<open>catch\<close>). The values handlers return are
  never read.
\<close>

datatype outcome = Returns | Raises error

record ActionHandlers =
  createTask :: "string \<Rightarrow> string \<Rightarrow> outcome"
  addToSchedule :: "string \<Rightarrow> string \<Rightarrow> string \<Rightarrow> outcome"
  sendEmail :: "string \<Rightarrow> string \<Rightarrow> string \<Rightarrow> outcome"
  deductInventoryForJob :: "EstimateRecord \<Rightarrow> outcome"

text \<open>
  The host: the global \<^verbatim>\<open>fetch\<close>, and the text \<^verbatim>\<open>fmtInput(new Date())\<close> prints for the
  current date (\<^verbatim>\<open>fmtInput\<close> of components/utils.ts is not among the sources).
\<close>

record Host =
  fetch :: "string \<Rightarrow> WebhookBody \<Rightarrow> outcome"
  fmtInput_now :: string

text \<open>A template literal's \<^verbatim>\<open>"${s}"\<close>: the text between double quotes.\<close>

definition quoted :: "string \<Rightarrow> string" where
  "quoted s = [CHR 0x22] @ s @ [CHR 0x22]"

text \<open>
  A call that is made and then returns or raises: the effects so far, and the error that
  leaves the \<^verbatim>\<open>switch\<close>, if any. \<open>and_then\<close> appends what follows a call that returned.
\<close>

type_synonym run = "effect list \<times> error option"

fun call :: "effect \<Rightarrow> outcome \<Rightarrow> run" where
  "call e Returns = ([e], None)"
| "call e (Raises x) = ([e], Some x)"

fun and_then :: "run \<Rightarrow> effect list \<Rightarrow> run" where
  "and_then (es, None) later = (es @ later, None)"
| "and_then (es, Some x) later = (es, Some x)"

subsection \<open>executeAction\<close>

text \<open>
  The branches of the \<^verbatim>\<open>switch\<close> on \<^verbatim>\<open>automation.action_type\<close>, one definition per
  \<^verbatim>\<open>case\<close>. The webhook has a \<^verbatim>\<open>try/catch\<close> of its own, so nothing leaves it.
\<close>

definition run_webhook :: "Host \<Rightarrow> Automation \<Rightarrow> EstimateRecord option \<Rightarrow> run" where
  "run_webhook host automation data =
     (case url (action_config automation) of
        None \<Rightarrow> ([], None)
      | Some u \<Rightarrow>
          if u = [] then ([], None)
          else (let body = WebhookBody (name_a automation) (trigger_type automation) data
                in case fetch host u body of
                     Returns \<Rightarrow>
                       ([Fetch u body,
                         ConsoleLog (''Webhook sent successfully for '' @ quoted (name_a automation))],
                        None)
                   | Raises x \<Rightarrow>
                       ([Fetch u body,
                         ConsoleError (''Webhook for automation '' @ quoted (name_a automation) @ '' failed:'') x],
                        None)))"

definition run_create_task :: "ActionHandlers \<Rightarrow> Automation \<Rightarrow> EstimateRecord option \<Rightarrow> run" where
  "run_create_task handlers automation data =
     (if truthy_str (task_title (action_config automation))
      then (case replacePlaceholders (or_empty (task_title (action_config automation))) data of
              Inl x \<Rightarrow> ([], Some x)
            | Inr title \<Rightarrow>
                (case replacePlaceholders (or_empty (task_description (action_config automation))) data of
                   Inl x \<Rightarrow> ([], Some x)
                 | Inr descr \<Rightarrow>
                     and_then (call (CreateTask title descr) (createTask handlers title descr))
                       [ConsoleLog (''Task created: '' @ quoted title)]))
      else ([], None))"

definition run_add_to_schedule ::
  "Host \<Rightarrow> ActionHandlers \<Rightarrow> Automation \<Rightarrow> EstimateRecord option \<Rightarrow> run" where
  "run_add_to_schedule host handlers automation data =
     (case data of
        None \<Rightarrow> ([], None)
      | Some jobData \<Rightarrow>
          if nested_customer jobData \<noteq> None
          then (case replacePlaceholders ''[customer_name] - [job_number]'' (Some jobData) of
                  Inl x \<Rightarrow> ([], Some x)
                | Inr jobName \<Rightarrow>
                    and_then
                      (call (AddToSchedule jobName (fmtInput_now host) (fmtInput_now host))
                         (addToSchedule handlers jobName (fmtInput_now host) (fmtInput_now host)))
                      [ConsoleLog (''Job added to schedule: '' @ quoted jobName)])
          else ([], None))"

text \<open>
  The recipient of an email: \<^verbatim>\<open>custom_email || ''\<close>, the team's fixed address, or
  \<^verbatim>\<open>data.calcData?.customer?.email || data.email\<close>, which reads \<^verbatim>\<open>data\<close>.
\<close>

definition emailRecipient :: "Automation \<Rightarrow> EstimateRecord option \<Rightarrow> error + string option" where
  "emailRecipient automation data =
     (if email_recipient (action_config automation) = Some to_custom
      then Inr (Some (or_empty (custom_email (action_config automation))))
      else if email_recipient (action_config automation) = Some to_team
      then Inr (Some ''team@example.com'')
      else (case data of
              None \<Rightarrow> Inl TypeError
            | Some d \<Rightarrow>
                Inr (or_str (case nested_customer d of None \<Rightarrow> None | Some c \<Rightarrow> email c) (email d))))"

definition run_send_email :: "ActionHandlers \<Rightarrow> Automation \<Rightarrow> EstimateRecord option \<Rightarrow> run" where
  "run_send_email handlers automation data =
     (case emailRecipient automation data of
        Inl x \<Rightarrow> ([], Some x)
      | Inr recipient \<Rightarrow>
          if truthy_str recipient \<and> truthy_str (email_subject (action_config automation))
          then (case replacePlaceholders (or_empty (email_subject (action_config automation))) data of
                  Inl x \<Rightarrow> ([], Some x)
                | Inr subject \<Rightarrow>
                    (case replacePlaceholders (or_empty (email_body (action_config automation))) data of
                       Inl x \<Rightarrow> ([], Some x)
                     | Inr body \<Rightarrow>
                         and_then
                           (call (SendEmail (or_empty recipient) subject body)
                              (sendEmail handlers (or_empty recipient) subject body))
                           [ConsoleLog (''Email sent to '' @ or_empty recipient)]))
          else ([ConsoleWarn (''Automation '' @ quoted (name_a automation) @
                   '' skipped: No email recipient found.'')], None))"

text \<open>
  \<^verbatim>\<open>'estimateNumber' in data\<close> raises a \<^verbatim>\<open>TypeError\<close> when \<^verbatim>\<open>data\<close> is
  \<^verbatim>\<open>undefined\<close>; on a record it asks whether the key is there. In the model a key
  is there exactly when it holds a text (\<open>Some\<close>): a key that is present with the value
  \<^verbatim>\<open>undefined\<close> is not a payload of the model.
\<close>

definition run_update_inventory :: "ActionHandlers \<Rightarrow> Automation \<Rightarrow> EstimateRecord option \<Rightarrow> run" where
  "run_update_inventory handlers automation data =
     (case data of
        None \<Rightarrow> ([], Some TypeError)
      | Some d \<Rightarrow>
          (case estimateNumber d of
             Some n \<Rightarrow>
               and_then (call (DeductInventoryForJob d) (deductInventoryForJob handlers d))
                 [ConsoleLog (''Inventory updated for job '' @ n)]
           | None \<Rightarrow>
               ([ConsoleWarn (''Automation '' @ quoted (name_a automation) @
                   '' skipped: '' @ [CHR 0x27] @ ''update_inventory'' @ [CHR 0x27] @
                   '' action can only be triggered by job-related events.'')], None)))"

text \<open>A template literal prints an absent value as \<^verbatim>\<open>undefined\<close>.\<close>

fun or_undefined :: "string option \<Rightarrow> string" where
  "or_undefined None = ''undefined''"
| "or_undefined (Some s) = s"

text \<open>The \<^verbatim>\<open>switch\<close>. The four kinds without a handler only write to the console.\<close>

fun run_action :: "Host \<Rightarrow> ActionHandlers \<Rightarrow> Automation \<Rightarrow> EstimateRecord option \<Rightarrow> ActionType \<Rightarrow> run" where
  "run_action host handlers automation data webhook = run_webhook host automation data"
| "run_action host handlers automation data create_task = run_create_task handlers automation data"
| "run_action host handlers automation data add_to_schedule =
     run_add_to_schedule host handlers automation data"
| "run_action host handlers automation data send_email = run_send_email handlers automation data"
| "run_action host handlers automation data send_sms =
     ([ConsoleLog (''SMS action triggered for automation '' @ quoted (name_a automation) @
         '' (not yet implemented)'')], None)"
| "run_action host handlers automation data update_job_status =
     ([ConsoleLog (''Update job status to '' @ quoted (or_undefined (new_status (action_config automation))) @
         '' (requires implementation)'')], None)"
| "run_action host handlers automation data assign_team =
     ([ConsoleLog (''Assign team action triggered for automation '' @ quoted (name_a automation) @
         '' (requires implementation)'')], None)"
| "run_action host handlers automation data create_invoice =
     ([ConsoleLog (''Create invoice action triggered for automation '' @ quoted (name_a automation) @
         '' (requires implementation)'')], None)"
| "run_action host handlers automation data update_inventory =
     run_update_inventory handlers automation data"

text \<open>
  \<^verbatim>\<open>executeAction\<close> wraps the \<^verbatim>\<open>switch\<close> in \<^verbatim>\<open>try { ... } catch (error) {
  console.error(`Failed to execute automation "${automation.name}":`, error); }\<close>. It is
  \<^verbatim>\<open>async\<close> and is never awaited: the caller gets a promise that never rejects. The
  effects are listed in the order this call performs them; those behind a handler call
  come when the awaited promise has settled.
\<close>

definition executeAction ::
  "Host \<Rightarrow> ActionHandlers \<Rightarrow> Automation \<Rightarrow> EstimateRecord option \<Rightarrow> effect list" where
  "executeAction host handlers automation data =
     (case run_action host handlers automation data (action_type automation) of
        (es, None) \<Rightarrow> es
      | (es, Some x) \<Rightarrow>
          es @ [ConsoleError (''Failed to execute automation '' @ quoted (name_a automation) @ '':'') x])"

subsection \<open>processAutomations\<close>

text \<open>
  The condition check of one rule. \<^verbatim>\<open>job.costsData?.finalQuote || 0\<close> is the job value;
  for \<^verbatim>\<open>job_created\<close> the payload is read only under a truthy bound, for
  \<^verbatim>\<open>job_status_updated\<close> \<^verbatim>\<open>job.status\<close> is read first. A bound is checked only when
  it is truthy; the two branches on \<^verbatim>\<open>from_status\<close> both set \<^verbatim>\<open>shouldRun = true\<close>.
\<close>

definition jobValue :: "EstimateRecord \<Rightarrow> rat" where
  "jobValue job = or_zero (nested_quote job)"

definition check_min :: "Automation \<Rightarrow> EstimateRecord option \<Rightarrow> bool \<Rightarrow> error + bool" where
  "check_min automation data shouldRun =
     (if truthy_num (job_value_min (trigger_config automation))
      then (case data of
              None \<Rightarrow> Inl TypeError
            | Some job \<Rightarrow>
                Inr (if jobValue job < or_zero (job_value_min (trigger_config automation))
                     then False else shouldRun))
      else Inr shouldRun)"

definition check_max :: "Automation \<Rightarrow> EstimateRecord option \<Rightarrow> bool \<Rightarrow> error + bool" where
  "check_max automation data shouldRun =
     (if truthy_num (job_value_max (trigger_config automation))
      then (case data of
              None \<Rightarrow> Inl TypeError
            | Some job \<Rightarrow>
                Inr (if jobValue job > or_zero (job_value_max (trigger_config automation))
                     then False else shouldRun))
      else Inr shouldRun)"

fun shouldRun :: "TriggerType \<Rightarrow> Automation \<Rightarrow> EstimateRecord option \<Rightarrow> error + bool" where
  "shouldRun new_customer automation data = Inr True"
| "shouldRun job_created automation data =
     (case check_min automation data True of
        Inl x \<Rightarrow> Inl x
      | Inr s \<Rightarrow> check_max automation data s)"
| "shouldRun job_status_updated automation data =
     (case data of
        None \<Rightarrow> Inl TypeError
      | Some job \<Rightarrow>
          (let s0 = (if status job = to_status (trigger_config automation)
                     then (if truthy_str (from_status (trigger_config automation)) then True else True)
                     else False)
           in case (if s0 then check_min automation data s0 else Inr s0) of
                Inl x \<Rightarrow> Inl x
              | Inr s1 \<Rightarrow> (if s1 then check_max automation data s1 else Inr s1)))"
| "shouldRun task_completed automation data = Inr True"
| "shouldRun invoice_overdue automation data = Inr True"
| "shouldRun scheduled_time automation data = Inr True"
| "shouldRun inventory_low automation data = Inr True"

text \<open>
  What the loop body does for a rule that should run: the console line, then either
  \<^verbatim>\<open>setTimeout(() => executeAction(...), delay_minutes * 60 * 1000)\<close> or
  \<^verbatim>\<open>executeAction(...)\<close> at once.
\<close>

definition dispatch ::
  "Host \<Rightarrow> ActionHandlers \<Rightarrow> EstimateRecord option \<Rightarrow> Automation \<Rightarrow> effect list" where
  "dispatch host handlers data automation =
     ConsoleLog (''Running automation: '' @ name_a automation) #
     (if truthy_num (delay_minutes (action_config automation)) \<and>
         or_zero (delay_minutes (action_config automation)) > 0
      then [SetTimeout (or_zero (delay_minutes (action_config automation)) * 60 * 1000)]
      else executeAction host handlers automation data)"

text \<open>
  The \<^verbatim>\<open>for\<close> loop over \<^verbatim>\<open>automationsToRun\<close>. Its result lists, in the order of the
  loop, every rule that was run with what its dispatch did, and holds the error that ended
  the loop, if one did: the condition check is outside every \<^verbatim>\<open>try\<close>, so an error there
  leaves \<^verbatim>\<open>processAutomations\<close> after the rules before it have been dispatched.
\<close>

type_synonym pass = "(Automation \<times> effect list) list \<times> error option"

fun run_rules ::
  "Host \<Rightarrow> ActionHandlers \<Rightarrow> TriggerType \<Rightarrow> EstimateRecord option \<Rightarrow> Automation list \<Rightarrow> pass" where
  "run_rules host handlers triggerType data [] = ([], None)"
| "run_rules host handlers triggerType data (automation # rest) =
     (case shouldRun triggerType automation data of
        Inl x \<Rightarrow> ([], Some x)
      | Inr s \<Rightarrow>
          (let (ran, raised) = run_rules host handlers triggerType data rest
           in if s then ((automation, dispatch host handlers data automation) # ran, raised)
              else (ran, raised)))"

definition processAutomations ::
  "Host \<Rightarrow> ActionHandlers \<Rightarrow> TriggerType \<Rightarrow> EstimateRecord option \<Rightarrow> Automation list \<Rightarrow> pass" where
  "processAutomations host handlers triggerType data allAutomations =
     run_rules host handlers triggerType data
       (filter (\<lambda>a. is_enabled a \<and> trigger_type a = triggerType) allAutomations)"

subsection \<open>The host's timer\<close>

text \<open>
  \<^verbatim>\<open>setTimeout(handler, timeout)\<close> takes its delay as a signed 32-bit integer (HTML
  Standard, timer initialisation steps: the argument is a Web IDL \<^verbatim>\<open>long\<close>, converted
  by truncating and wrapping modulo \<open>2^32\<close>; a negative timeout counts as 0).
  \<open>timer_delay ms\<close> is the number of milliseconds after which the host runs the callback
  of \<^verbatim>\<open>setTimeout(callback, ms)\<close>.
\<close>

definition toInt32 :: "rat \<Rightarrow> int" where
  "toInt32 x = sint (word_of_int (if x < 0 then - \<lfloor>- x\<rfloor> else \<lfloor>x\<rfloor>) :: 32 word)"

definition timer_delay :: "rat \<Rightarrow> nat" where
  "timer_delay ms = nat (max 0 (toInt32 ms))"

subsection \<open>The conditions as the specification words them\<close>

text \<open>
  The specification's Condition Evaluator, written from its sentences and not from the
  code: the job value is the final quote, 0 when absent; a bound that is absent or zero
  filters nothing; \<^verbatim>\<open>job_created\<close> asks for the bounds, \<^verbatim>\<open>job_status_updated\<close> for the
  new status to equal \<^verbatim>\<open>to_status\<close> and then for the bounds; every other kind is always
  true.
\<close>

definition spec_job_value :: "EstimateRecord \<Rightarrow> rat" where
  "spec_job_value d =
     (case costsData d of
        None \<Rightarrow> 0
      | Some c \<Rightarrow> (case finalQuote c of None \<Rightarrow> 0 | Some q \<Rightarrow> q))"

definition spec_bounds :: "TriggerConfig \<Rightarrow> EstimateRecord \<Rightarrow> bool" where
  "spec_bounds cfg d =
     ((job_value_min cfg = None \<or> job_value_min cfg = Some 0 \<or>
       (\<exists>m. job_value_min cfg = Some m \<and> m \<le> spec_job_value d)) \<and>
      (job_value_max cfg = None \<or> job_value_max cfg = Some 0 \<or>
       (\<exists>m. job_value_max cfg = Some m \<and> spec_job_value d \<le> m)))"

fun spec_condition :: "TriggerType \<Rightarrow> TriggerConfig \<Rightarrow> EstimateRecord \<Rightarrow> bool" where
  "spec_condition job_created cfg d = spec_bounds cfg d"
| "spec_condition job_status_updated cfg d = (status d = to_status cfg \<and> spec_bounds cfg d)"
| "spec_condition t cfg d = True"

subsection \<open>Concrete rules, payloads and handlers\<close>

definition no_trigger_config :: TriggerConfig where
  "no_trigger_config =
     \<lparr>to_status = None, from_status = None, job_value_min = None, job_value_max = None,
      time = None, days_overdue = None, stock_threshold = None, item_name = None\<rparr>"

definition no_action_config :: ActionConfig where
  "no_action_config =
     \<lparr>url = None, task_title = None, task_description = None, task_priority = None,
      email_subject = None, email_body = None, email_recipient = None, custom_email = None,
      sms_message = None, sms_recipient = None, custom_phone = None, new_status = None,
      team_ids = None, delay_minutes = None\<rparr>"

text \<open>A rule that listens for \<open>t\<close> and performs \<open>k\<close>, with nothing configured.\<close>

definition mk_rule :: "string \<Rightarrow> TriggerType \<Rightarrow> ActionType \<Rightarrow> Automation" where
  "mk_rule n t k =
     \<lparr>id_a = None, name_a = n, description = None, trigger_type = t,
      trigger_config = no_trigger_config, action_type = k, action_config = no_action_config,
      conditions = None, is_enabled = True\<rparr>"

text \<open>The payload \<^verbatim>\<open>{}\<close>, and a job of customer Acme with a number and a final quote.\<close>

definition empty_payload :: EstimateRecord where
  "empty_payload =
     \<lparr>name = None, address = None, email = None, estimateNumber = None, status = None,
      calcData = None, costsData = None\<rparr>"

definition acme :: CustomerInfo where
  "acme = \<lparr>name = Some ''Acme'', address = None, email = None\<rparr>"

definition job_of :: "string \<Rightarrow> rat \<Rightarrow> EstimateRecord" where
  "job_of n q =
     empty_payload\<lparr>estimateNumber := Some n, calcData := Some \<lparr>customer = Some acme\<rparr>,
       costsData := Some \<lparr>finalQuote = Some q\<rparr>\<rparr>"

text \<open>
  Handlers that return, a host whose network answers, and a \<^verbatim>\<open>createTask\<close> that raises on
  one title.
\<close>

definition ok_handlers :: ActionHandlers where
  "ok_handlers =
     \<lparr>createTask = (\<lambda>t d. Returns), addToSchedule = (\<lambda>n s e. Returns),
      sendEmail = (\<lambda>t s b. Returns), deductInventoryForJob = (\<lambda>j. Returns)\<rparr>"

definition quiet_host :: Host where
  "quiet_host = \<lparr>fetch = (\<lambda>u b. Returns), fmtInput_now = ''2024-05-01''\<rparr>"

definition failing_on :: "string \<Rightarrow> ActionHandlers" where
  "failing_on t0 =
     ok_handlers\<lparr>createTask := (\<lambda>t d. if t = t0 then Raises (Thrown ''offline'') else Returns)\<rparr>"

text \<open>
  Rules: one for jobs of at least 500, one for the status \<^verbatim>\<open>sold\<close> with a
  \<^verbatim>\<open>from_status\<close>, two that create a task, one that is switched off, one webhook without
  a URL, one whose task title is a lone placeholder, and one that waits thirty days
  (43200 minutes).
\<close>

definition min500 :: Automation where
  "min500 = (mk_rule ''Large job'' job_created send_sms)
     \<lparr>trigger_config := no_trigger_config\<lparr>job_value_min := Some 500\<rparr>\<rparr>"

definition sold_rule :: Automation where
  "sold_rule = (mk_rule ''Sold'' job_status_updated update_inventory)
     \<lparr>trigger_config := no_trigger_config\<lparr>to_status := Some ''sold'', from_status := Some ''draft''\<rparr>\<rparr>"

definition call_rule :: Automation where
  "call_rule = (mk_rule ''First'' job_created create_task)
     \<lparr>action_config := no_action_config\<lparr>task_title := Some ''Call [customer_name]''\<rparr>\<rparr>"


definition off_rule :: Automation where
  "off_rule = (mk_rule ''Off'' job_created send_sms)\<lparr>is_enabled := False\<rparr>"

definition hook_rule :: Automation where
  "hook_rule = mk_rule ''Notify'' new_customer webhook"

definition number_rule :: Automation where
  "number_rule = (mk_rule ''Call back'' new_customer create_task)
     \<lparr>action_config := no_action_config\<lparr>task_title := Some ''[job_number]''\<rparr>\<rparr>"

definition month_later :: Automation where
  "month_later = (mk_rule ''Follow up'' job_created send_email)
     \<lparr>action_config := no_action_config\<lparr>delay_minutes := Some 43200\<rparr>\<rparr>"


text \<open>Whether an effect calls a handler or the network, and whether it reports a failure.\<close>

fun is_handler_call :: "effect \<Rightarrow> bool" where
  "is_handler_call (Fetch u b) = True"
| "is_handler_call (CreateTask t d) = True"
| "is_handler_call (AddToSchedule n s e) = True"
| "is_handler_call (SendEmail t s b) = True"
| "is_handler_call (DeductInventoryForJob j) = True"
| "is_handler_call e = False"

fun is_failure_report :: "effect \<Rightarrow> bool" where
  "is_failure_report (ConsoleError m x) = True"
| "is_failure_report e = False"

section \<open>Properties\<close>

lemmas ex_defs = mk_rule_def no_trigger_config_def no_action_config_def empty_payload_def
  acme_def job_of_def ok_handlers_def quiet_host_def failing_on_def

lemmas token_defs = replace_tokens_def replace_all_def customer_name_of_def
  customer_address_of_def job_number_of_def job_value_of_def

lemmas action_defs = executeAction_def run_webhook_def run_create_task_def
  run_add_to_schedule_def run_send_email_def run_update_inventory_def emailRecipient_def

subsection \<open>The condition check on a payload record\<close>

lemma jobValue_spec: "jobValue d = spec_job_value d"
  by (simp add: jobValue_def spec_job_value_def split: option.splits)

lemma check_min_Some:
  "check_min a (Some d) s =
     Inr (s \<and> (job_value_min (trigger_config a) = None \<or>
               job_value_min (trigger_config a) = Some 0 \<or>
               (\<exists>m. job_value_min (trigger_config a) = Some m \<and> m \<le> spec_job_value d)))"
  by (cases "job_value_min (trigger_config a)") (auto simp: check_min_def jobValue_spec)

lemma check_max_Some:
  "check_max a (Some d) s =
     Inr (s \<and> (job_value_max (trigger_config a) = None \<or>
               job_value_max (trigger_config a) = Some 0 \<or>
               (\<exists>m. job_value_max (trigger_config a) = Some m \<and> spec_job_value d \<le> m)))"
  by (cases "job_value_max (trigger_config a)") (auto simp: check_max_def jobValue_spec)

lemma shouldRun_Some: "shouldRun t a (Some d) = Inr (spec_condition t (trigger_config a) d)"
  by (cases t) (auto simp: check_min_Some check_max_Some spec_bounds_def Let_def)

lemma run_rules_Some:
  "run_rules host handlers t (Some d) rules =
     (map (\<lambda>a. (a, dispatch host handlers (Some d) a))
        (filter (\<lambda>a. spec_condition t (trigger_config a) d) rules), None)"
  by (induction rules) (simp_all add: shouldRun_Some)

text \<open>
  An event without a payload: the kinds that never read the payload still run their rules,
  and a job-related kind raises as soon as a rule makes it read the job.
\<close>

lemma shouldRun_no_payload:
  "t \<noteq> job_created \<Longrightarrow> t \<noteq> job_status_updated \<Longrightarrow> shouldRun t a None = Inr True"
  by (cases t) simp_all

lemma run_rules_no_payload:
  "t \<noteq> job_created \<Longrightarrow> t \<noteq> job_status_updated \<Longrightarrow>
   run_rules host handlers t None rules =
     (map (\<lambda>a. (a, dispatch host handlers None a)) rules, None)"
  by (induction rules) (simp_all add: shouldRun_no_payload)

lemma shouldRun_status_no_payload: "shouldRun job_status_updated a None = Inl TypeError"
  by simp

lemma shouldRun_created_no_payload: "shouldRun job_created min500 None = Inl TypeError"
  by (simp add: check_min_def min500_def ex_defs)

subsection \<open>C1: the rules that run, and their order\<close>

text \<open>
  Claim C1. For every rule set \<open>R\<close> and every event (a trigger kind \<open>t\<close> with a payload
  record \<open>d\<close>), \<open>processAutomations\<close> runs exactly the rules of \<open>R\<close> that are enabled,
  whose \<open>trigger_type\<close> is \<open>t\<close> and whose kind-specific condition (as the specification
  words it) holds for \<open>d\<close>; it dispatches them in the order they have in \<open>R\<close>, and no error
  ends the pass.
\<close>

theorem processAutomations_runs_matching_rules_in_order:
  "processAutomations host handlers t (Some d) R =
     (map (\<lambda>a. (a, dispatch host handlers (Some d) a))
        (filter (\<lambda>a. is_enabled a \<and> trigger_type a = t \<and>
                      spec_condition t (trigger_config a) d) R),
      None)"
  by (simp add: processAutomations_def run_rules_Some)

text \<open>
  Witness for C1: of four rules, a job of 750 runs the rule for large jobs and the task
  rule, in that order; a job of 100 runs the task rule alone. The rule that is switched
  off and the rule of another trigger kind never run.
\<close>

theorem processAutomations_runs_matching_rules_witness:
  "map fst (fst (processAutomations quiet_host ok_handlers job_created
       (Some (job_of ''1042'' 750))
       [min500, off_rule, mk_rule ''Welcome'' new_customer send_sms, call_rule])) =
     [min500, call_rule] \<and>
   map fst (fst (processAutomations quiet_host ok_handlers job_created
       (Some (job_of ''1042'' 100))
       [min500, off_rule, mk_rule ''Welcome'' new_customer send_sms, call_rule])) =
     [call_rule]"
  using
    processAutomations_runs_matching_rules_in_order
      [of quiet_host ok_handlers job_created "job_of ''1042'' 750"
          "[min500, off_rule, mk_rule ''Welcome'' new_customer send_sms, call_rule]"]
    processAutomations_runs_matching_rules_in_order
      [of quiet_host ok_handlers job_created "job_of ''1042'' 100"
          "[min500, off_rule, mk_rule ''Welcome'' new_customer send_sms, call_rule]"]
  by (simp add: min500_def call_rule_def off_rule_def ex_defs spec_bounds_def spec_job_value_def)

subsection \<open>C2: the bounds of a \<^verbatim>\<open>job_created\<close> rule\<close>

text \<open>
  Claim C2. For every \<^verbatim>\<open>job_created\<close> rule and every job payload the condition holds if
  and only if \<^verbatim>\<open>job_value_min\<close> is absent or zero or at most the job value, and
  \<^verbatim>\<open>job_value_max\<close> is absent or zero or at least the job value, where the job value is
  the final quote, and 0 when the payload has none. Both comparisons are inclusive.
\<close>

theorem job_created_condition:
  "shouldRun job_created a (Some d) =
     Inr ((job_value_min (trigger_config a) = None \<or>
           job_value_min (trigger_config a) = Some 0 \<or>
           (\<exists>m. job_value_min (trigger_config a) = Some m \<and> m \<le> spec_job_value d)) \<and>
          (job_value_max (trigger_config a) = None \<or>
           job_value_max (trigger_config a) = Some 0 \<or>
           (\<exists>m. job_value_max (trigger_config a) = Some m \<and> spec_job_value d \<le> m)))"
  by (simp add: shouldRun_Some spec_bounds_def)

text \<open>
  Witness for C2: with \<^verbatim>\<open>job_value_min = 500\<close> a job of 499.99 does not match and a job
  of 500.00 does; a bound of zero lets a job of 1 through; a payload without a final quote
  counts as 0.
\<close>

theorem job_created_condition_witness:
  "shouldRun job_created min500 (Some (job_of ''1042'' 499.99)) = Inr False \<and>
   shouldRun job_created min500 (Some (job_of ''1042'' 500.00)) = Inr True \<and>
   shouldRun job_created
     (min500\<lparr>trigger_config := no_trigger_config\<lparr>job_value_min := Some 0\<rparr>\<rparr>)
     (Some (job_of ''1042'' 1)) = Inr True \<and>
   shouldRun job_created min500 (Some empty_payload) = Inr False"
  using
    job_created_condition [of min500 "job_of ''1042'' 499.99"]
    job_created_condition [of min500 "job_of ''1042'' 500.00"]
    job_created_condition
      [of "min500\<lparr>trigger_config := no_trigger_config\<lparr>job_value_min := Some 0\<rparr>\<rparr>"
          "job_of ''1042'' 1"]
    job_created_condition [of min500 empty_payload]
  by (simp add: min500_def ex_defs spec_job_value_def)

subsection \<open>C3: the condition of a \<^verbatim>\<open>job_status_updated\<close> rule\<close>

text \<open>
  Claim C3. For every \<^verbatim>\<open>job_status_updated\<close> rule and every job payload the condition
  holds if and only if the payload's status equals the configured \<^verbatim>\<open>to_status\<close> and the
  job-value bounds pass; whatever \<^verbatim>\<open>from_status\<close> is set to, the outcome is the same.
\<close>

theorem job_status_updated_condition:
  "shouldRun job_status_updated a (Some d) =
     Inr (status d = to_status (trigger_config a) \<and> spec_bounds (trigger_config a) d) \<and>
   shouldRun job_status_updated
     (a\<lparr>trigger_config := (trigger_config a)\<lparr>from_status := f\<rparr>\<rparr>) (Some d) =
     shouldRun job_status_updated a (Some d)"
  by (simp add: shouldRun_Some spec_bounds_def)

text \<open>
  Witness for C3: a rule with \<^verbatim>\<open>to_status = "sold"\<close> and \<^verbatim>\<open>from_status = "draft"\<close>
  matches a job whose status is \<^verbatim>\<open>sold\<close>, does not match one whose status is
  \<^verbatim>\<open>lost\<close>, and matches the same jobs when \<^verbatim>\<open>from_status\<close> is removed.
\<close>

theorem job_status_updated_condition_witness:
  "shouldRun job_status_updated sold_rule
     (Some ((job_of ''1042'' 750)\<lparr>status := Some ''sold''\<rparr>)) = Inr True \<and>
   shouldRun job_status_updated sold_rule
     (Some ((job_of ''1042'' 750)\<lparr>status := Some ''lost''\<rparr>)) = Inr False \<and>
   shouldRun job_status_updated
     (sold_rule\<lparr>trigger_config := (trigger_config sold_rule)\<lparr>from_status := None\<rparr>\<rparr>)
     (Some ((job_of ''1042'' 750)\<lparr>status := Some ''sold''\<rparr>)) = Inr True"
  using
    job_status_updated_condition
      [of sold_rule "(job_of ''1042'' 750)\<lparr>status := Some ''sold''\<rparr>" None]
    job_status_updated_condition
      [of sold_rule "(job_of ''1042'' 750)\<lparr>status := Some ''lost''\<rparr>" None]
  by (simp add: sold_rule_def ex_defs spec_bounds_def)

subsection \<open>C4: placeholder substitution\<close>

text \<open>
  On a payload record \<open>replacePlaceholders\<close> always returns a text; without a payload a
  text that is not empty raises.
\<close>

lemma replace_tokens_Nil: "replace_tokens [] d = []"
  by (simp add: replace_tokens_def replace_all_def)

lemma replacePlaceholders_Some: "replacePlaceholders text (Some d) = Inr (replace_tokens text d)"
  by (simp add: replacePlaceholders_def replace_tokens_Nil)

lemma replacePlaceholders_no_payload:
  "replacePlaceholders text None = (if text = [] then Inr [] else Inl TypeError)"
  by (simp add: replacePlaceholders_def)

text \<open>
  The two examples of the specification: the payload
  \<^verbatim>\<open>{calcData: {customer: {name: "Acme"}}, estimateNumber: "1042"}\<close>, and the same payload
  without its number.
\<close>

lemma replacePlaceholders_acme:
  "replacePlaceholders ''[customer_name] - [job_number]''
     (Some (empty_payload\<lparr>estimateNumber := Some ''1042'',
        calcData := Some \<lparr>customer = Some acme\<rparr>\<rparr>)) = Inr ''Acme - 1042''"
  by (simp add: replacePlaceholders_def token_defs ex_defs)

lemma replacePlaceholders_acme_no_number:
  "replacePlaceholders ''[customer_name] - [job_number]''
     (Some (empty_payload\<lparr>calcData := Some \<lparr>customer = Some acme\<rparr>\<rparr>)) = Inr ''Acme - ''"
  by (simp add: replacePlaceholders_def token_defs ex_defs)

text \<open>A token outside the four stays, and the job value gets two decimals.\<close>

lemma toFixed2_750: "toFixed2 750 = ''750.00''"
  by (simp add: toFixed2_def Let_def floor_divide_of_int_eq [of 150001 2, simplified]
      digits.simps [of 750] digits.simps [of 75] digits.simps [of 7])

lemma replacePlaceholders_other_tokens:
  "replacePlaceholders ''[company_name]: [job_value]'' (Some (job_of ''1042'' 750)) =
     Inr ''[company_name]: 750.00''"
  by (simp add: replacePlaceholders_def token_defs ex_defs toFixed2_750)

text \<open>
  Claim C4 says that every occurrence of a token is replaced with the value extracted from
  the record. The code hands the value to \<^verbatim>\<open>replace\<close> as a replacement pattern and
  runs the four replacements one after the other, so a value is not always what ends up in
  the text: for the customer \<^verbatim>\<open>Cash $$ Carry\<close> the text \<^verbatim>\<open>Call [customer_name]\<close> becomes
  \<^verbatim>\<open>Call Cash $ Carry\<close>, for the customer \<^verbatim>\<open>$&\<close> the token comes back, and a customer
  whose name is the text \<^verbatim>\<open>[job_number]\<close> is printed as the job's number.
\<close>

theorem replacePlaceholders_rewrites_values:
  "replacePlaceholders ''Call [customer_name]''
     (Some (empty_payload\<lparr>name := Some ''Cash $$ Carry''\<rparr>)) = Inr ''Call Cash $ Carry'' \<and>
   replacePlaceholders ''Call [customer_name]''
     (Some (empty_payload\<lparr>name := Some ''$&''\<rparr>)) = Inr ''Call [customer_name]'' \<and>
   replacePlaceholders ''Call [customer_name]''
     (Some (empty_payload\<lparr>name := Some ''[job_number]'', estimateNumber := Some ''1042''\<rparr>)) =
     Inr ''Call 1042''"
  by (simp add: replacePlaceholders_def token_defs ex_defs)

subsection \<open>C5: delayed actions\<close>

text \<open>
  What the dispatch of a rule does with \<^verbatim>\<open>delay_minutes\<close>: absent or zero, the action
  runs in the pass, and the two are the same rule to the engine; positive, the pass only
  registers a timer of \<^verbatim>\<open>delay_minutes * 60 * 1000\<close> milliseconds and goes on.
\<close>

lemma run_action_delay:
  "run_action host handlers (a\<lparr>action_config := (action_config a)\<lparr>delay_minutes := x\<rparr>\<rparr>) data k =
   run_action host handlers a data k"
  by (cases k)
     (simp_all add: action_defs Let_def
        cong: option.case_cong outcome.case_cong sum.case_cong if_cong)

lemma delay_zero_is_absent:
  "dispatch host handlers data (a\<lparr>action_config := (action_config a)\<lparr>delay_minutes := Some 0\<rparr>\<rparr>) =
   dispatch host handlers data (a\<lparr>action_config := (action_config a)\<lparr>delay_minutes := None\<rparr>\<rparr>)"
  by (simp add: dispatch_def executeAction_def run_action_delay split: prod.splits option.splits)

lemma dispatch_immediate:
  "delay_minutes (action_config a) = None \<or> delay_minutes (action_config a) = Some 0 \<Longrightarrow>
   dispatch host handlers data a =
     ConsoleLog (''Running automation: '' @ name_a a) # executeAction host handlers a data"
  by (auto simp: dispatch_def)

lemma dispatch_delayed:
  "delay_minutes (action_config a) = Some m \<Longrightarrow> 0 < m \<Longrightarrow>
   dispatch host handlers data a =
     [ConsoleLog (''Running automation: '' @ name_a a), SetTimeout (m * 60 * 1000)]"
  by (auto simp: dispatch_def)

text \<open>
  The host keeps a delay of up to 35791 whole minutes (\<open>2^31 - 1\<close> milliseconds are
  35791.39 minutes).
\<close>

lemma timer_delay_small:
  assumes "n \<le> 35791"
  shows "timer_delay (of_nat n * 60 * 1000) = n * 60 * 1000"
proof -
  let ?ms = "of_nat n * 60 * 1000 :: rat"
  have eq: "?ms = of_int (int (n * 60000))"
    by simp
  have fl: "\<lfloor>?ms\<rfloor> = int (n * 60000)"
    unfolding eq by (rule floor_of_int)
  have nonneg: "\<not> ?ms < 0"
    by simp
  have small: "int (n * 60000) < 2 ^ 31"
    using assms by simp
  have fits: "sint (word_of_int k :: 32 word) = k" if "0 \<le> k" "k < 2 ^ 31" for k :: int
    using that by (simp add: sint_sbintrunc' signed_take_bit_int_eq_self)
  have "toInt32 ?ms = sint (word_of_int \<lfloor>?ms\<rfloor> :: 32 word)"
    unfolding toInt32_def using nonneg by (simp only: if_False)
  also have "\<dots> = sint (word_of_int (int (n * 60000)) :: 32 word)"
    by (simp only: fl)
  also have "\<dots> = int (n * 60000)"
    by (rule fits) (use small in simp_all)
  finally have "toInt32 ?ms = int (n * 60000)" .
  then show ?thesis
    unfolding timer_delay_def by simp
qed

text \<open>
  Claim C5 says that the handler of a rule with a positive \<^verbatim>\<open>delay_minutes\<close> is never
  invoked before \<^verbatim>\<open>delay_minutes * 60\<close> seconds have gone by. For a rule that waits thirty
  days the pass calls \<^verbatim>\<open>setTimeout\<close> with 2592000000 milliseconds, which does not fit
  the timer's 32 bits: it wraps to a negative number, the host takes a negative delay as 0,
  and the action runs at once.
\<close>

theorem thirty_day_delay_fires_at_once:
  "dispatch host handlers data month_later =
     [ConsoleLog ''Running automation: Follow up'', SetTimeout 2592000000] \<and>
   toInt32 2592000000 = - 1702967296 \<and>
   timer_delay 2592000000 = 0"
  by (simp add: dispatch_def month_later_def ex_defs timer_delay_def toInt32_def)

subsection \<open>C6: a failing handler stops nothing\<close>






subsection \<open>C7: a webhook rule without a URL\<close>

lemma and_then_call:
  "and_then (call e r) later =
     (case r of Returns \<Rightarrow> (e # later, None) | Raises x \<Rightarrow> ([e], Some x))"
  by (cases r) simp_all

text \<open>
  Claim C7 says that dispatching a webhook rule without a \<^verbatim>\<open>url\<close> never calls the network
  and reports a skip. The code keeps the network out, and reports nothing: for such a rule
  \<open>executeAction\<close> has no effect at all (whether the URL is absent or empty), and the whole
  dispatch writes the one line that the rule is running. The \<^verbatim>\<open>send_email\<close> and
  \<^verbatim>\<open>update_inventory\<close> branches do write their skips, with \<^verbatim>\<open>console.warn\<close>.
\<close>

theorem webhook_without_url_reports_nothing:
  "executeAction host handlers hook_rule data = [] \<and>
   dispatch host handlers data hook_rule = [ConsoleLog ''Running automation: Notify''] \<and>
   executeAction host handlers
     (hook_rule\<lparr>action_config := no_action_config\<lparr>url := Some ''''\<rparr>\<rparr>) data = []"
  by (simp add: dispatch_def executeAction_def run_webhook_def hook_rule_def ex_defs)

subsection \<open>C8: the guard of \<^verbatim>\<open>create_task\<close>\<close>

text \<open>
  What \<open>executeAction\<close> does for a task rule on a payload record: the guard is on the
  configured title, and the substituted title and description go to the handler.
\<close>

lemma executeAction_create_task:
  "executeAction host handlers (a\<lparr>action_type := create_task\<rparr>) (Some d) =
     (if truthy_str (task_title (action_config a))
      then (let title = replace_tokens (or_empty (task_title (action_config a))) d;
                descr = replace_tokens (or_empty (task_description (action_config a))) d
            in CreateTask title descr #
               (case createTask handlers title descr of
                  Returns \<Rightarrow> [ConsoleLog (''Task created: '' @ quoted title)]
                | Raises x \<Rightarrow>
                    [ConsoleError (''Failed to execute automation '' @ quoted (name_a a) @ '':'') x]))
      else [])"
  by (simp add: executeAction_def run_create_task_def replacePlaceholders_Some and_then_call Let_def
      split: outcome.splits)

lemma executeAction_create_task_no_title:
  "\<not> truthy_str (task_title (action_config a)) \<Longrightarrow>
   executeAction host handlers (a\<lparr>action_type := create_task\<rparr>) data = []"
  by (simp add: executeAction_def run_create_task_def)

text \<open>
  Claim C8 as the code has it. For every \<^verbatim>\<open>create_task\<close> rule and every payload record
  the handler is called exactly when the configured \<^verbatim>\<open>task_title\<close> is present and not
  empty, once, with the title and the description after substitution; when the configured
  title is absent or empty, with or without a payload, no failure is reported.
\<close>

theorem create_task_guard_is_the_configured_title:
  "filter is_handler_call (executeAction host handlers (a\<lparr>action_type := create_task\<rparr>) (Some d)) =
     (if truthy_str (task_title (action_config a))
      then [CreateTask (replace_tokens (or_empty (task_title (action_config a))) d)
              (replace_tokens (or_empty (task_description (action_config a))) d)]
      else []) \<and>
   (if truthy_str (task_title (action_config a)) then True
    else filter is_failure_report
           (executeAction host handlers (a\<lparr>action_type := create_task\<rparr>) data) = [])"
  by (simp add: executeAction_create_task executeAction_create_task_no_title Let_def
      split: outcome.splits)

text \<open>
  Counterexample to C8 as stated (the handler is invoked only when the title is not empty
  after substitution): the title \<^verbatim>\<open>[job_number]\<close> on a payload without a number is empty
  after substitution, and the handler is called with it.
\<close>

theorem create_task_empty_title_counterexample:
  "replacePlaceholders ''[job_number]'' (Some empty_payload) = Inr [] \<and>
   executeAction quiet_host ok_handlers number_rule (Some empty_payload) =
     [CreateTask [] [], ConsoleLog (''Task created: '' @ quoted [])]"
  by (simp add: executeAction_def run_create_task_def replacePlaceholders_def token_defs
      number_rule_def ex_defs)

text \<open>
  Witness for C8 as amended: a title that substitutes to nothing and a title that
  substitutes to \<^verbatim>\<open>Call Acme\<close> both reach the handler; a rule without a title does not.
\<close>

theorem create_task_guard_witness:
  "filter is_handler_call (executeAction quiet_host ok_handlers number_rule (Some empty_payload)) =
     [CreateTask [] []] \<and>
   filter is_handler_call
     (executeAction quiet_host ok_handlers (mk_rule ''No title'' new_customer create_task)
        (Some empty_payload)) = [] \<and>
   filter is_handler_call
     (executeAction quiet_host ok_handlers call_rule (Some (job_of ''1042'' 750))) =
     [CreateTask ''Call Acme'' []]"
  using create_task_guard_is_the_configured_title
      [of quiet_host ok_handlers number_rule empty_payload None]
    create_task_guard_is_the_configured_title
      [of quiet_host ok_handlers "mk_rule ''No title'' new_customer create_task" empty_payload None]
    create_task_guard_is_the_configured_title
      [of quiet_host ok_handlers call_rule "job_of ''1042'' 750" None]
  by (simp add: number_rule_def call_rule_def ex_defs token_defs)

subsection \<open>C9: the action kinds without a handler\<close>

text \<open>
  Claim C9. For every rule whose action kind is \<^verbatim>\<open>send_sms\<close>, \<^verbatim>\<open>update_job_status\<close>,
  \<^verbatim>\<open>assign_team\<close> or \<^verbatim>\<open>create_invoice\<close>, and every payload or none, \<open>executeAction\<close>
  raises nothing, calls no handler, and writes exactly one console line, which says that
  the action is not implemented: neither a failure report nor a success message.
\<close>

theorem unimplemented_kinds_only_log:
  "executeAction host handlers (a\<lparr>action_type := send_sms\<rparr>) data =
     [ConsoleLog (''SMS action triggered for automation '' @ quoted (name_a a) @
        '' (not yet implemented)'')] \<and>
   executeAction host handlers (a\<lparr>action_type := update_job_status\<rparr>) data =
     [ConsoleLog (''Update job status to '' @ quoted (or_undefined (new_status (action_config a))) @
        '' (requires implementation)'')] \<and>
   executeAction host handlers (a\<lparr>action_type := assign_team\<rparr>) data =
     [ConsoleLog (''Assign team action triggered for automation '' @ quoted (name_a a) @
        '' (requires implementation)'')] \<and>
   executeAction host handlers (a\<lparr>action_type := create_invoice\<rparr>) data =
     [ConsoleLog (''Create invoice action triggered for automation '' @ quoted (name_a a) @
        '' (requires implementation)'')]"
  by (simp add: executeAction_def)

text \<open>
  Witness for C9: the pass of one matching \<^verbatim>\<open>send_sms\<close> rule writes that the rule is
  running and that the action is not implemented, and nothing else.
\<close>

theorem unimplemented_kinds_witness:
  "processAutomations quiet_host ok_handlers job_created (Some (job_of ''1042'' 750)) [min500] =
     ([(min500,
        [ConsoleLog ''Running automation: Large job'',
         ConsoleLog (''SMS action triggered for automation '' @ quoted ''Large job'' @
           '' (not yet implemented)'')])], None)"
  using unimplemented_kinds_only_log [of quiet_host ok_handlers min500 "Some (job_of ''1042'' 750)"]
  by (simp add: processAutomations_def check_min_def check_max_def jobValue_def dispatch_def
      min500_def ex_defs)

subsection \<open>C10: the guard of \<^verbatim>\<open>add_to_schedule\<close>\<close>



end
